theory Spec2Isabelle
  imports Main
begin

section \<open>Job lifecycle controller (components/interview-table.tsx)\<close>

subsection \<open>Data model (types/interview.ts, types/job.ts, context/AppProvider.tsx)\<close>

record interview =
  role :: string
  industry :: string
  question_one :: string
  question_two :: string
  question_three :: string
  question_four :: string
  question_five :: string

datatype job_state = Pending | Completed | Failed

text \<open>\<^verbatim>\<open>JobStatus\<close>: the optional fields \<^verbatim>\<open>data?\<close>, \<^verbatim>\<open>error?\<close>, \<^verbatim>\<open>progress?\<close> are options.\<close>

record job_status =
  status :: job_state
  data :: "interview list option"
  error :: "string option"
  progress :: "nat option"

datatype toast_variant = Default_variant | Destructive

text \<open>The argument of \<^verbatim>\<open>toast({title, description, variant})\<close>. The description of the
  failure toast is \<^verbatim>\<open>data.error\<close>, an optional field, hence an option.\<close>

record toast =
  title :: string
  description :: "string option"
  variant :: toast_variant

text \<open>\<^verbatim>\<open>TOAST_MESSAGES\<close> and the other constants of constants/app.ts that the controller uses.\<close>

definition SUCCESS_TITLE :: string where "SUCCESS_TITLE = ''Success!''"
definition SUCCESS_DESCRIPTION :: string where
  "SUCCESS_DESCRIPTION = ''Your interviews have been generated.''"
definition ERROR_TITLE :: string where "ERROR_TITLE = ''Error''"
definition JOB_STATUS_POLLING_INTERVAL :: nat where "JOB_STATUS_POLLING_INTERVAL = 15000"
definition INTERVIEW_STATUS :: string where
  "INTERVIEW_STATUS = ''/api/v1/ideation/interview-status''"

text \<open>The two revalidation options in the object passed to \<^verbatim>\<open>useSWR\<close>; the start hook
  sets both to false.\<close>

record swr_options =
  revalidateOnFocus :: bool
  revalidateOnReconnect :: bool

definition start_options :: swr_options where
  "start_options = \<lparr>revalidateOnFocus = False, revalidateOnReconnect = False\<rparr>"

text \<open>What the environment fixes: \<^verbatim>\<open>process.env.NODE_ENV === "development"\<close>,
  \<^verbatim>\<open>process.env.NEXT_PUBLIC_API_URL\<close>, and the example records of data/interviews
  (a module that the controller imports as \<^verbatim>\<open>defaultInterviews\<close>).\<close>

record environment =
  development :: bool
  api_url :: string
  defaultInterviews :: "interview list"

text \<open>The state the component reads and writes: the two fields of the application
  context (\<^verbatim>\<open>interviews\<close>, \<^verbatim>\<open>interviewing\<close>), the local \<^verbatim>\<open>jobId\<close>, the current
  \<^verbatim>\<open>sessionId\<close> prop, and the observable effects: toasts shown, start requests posted
  (by session id), status requests fetched (by URL), whether the \<^verbatim>\<open>session_id\<close> query
  parameter has been deleted from the address bar. \<^verbatim>\<open>start_keys\<close> is the cache of the
  start hook and \<^verbatim>\<open>start_pending\<close> the start request that has not been answered yet.\<close>

record controller =
  interviews :: "interview list"
  interviewing :: bool
  jobId :: "string option"
  sessionId :: string
  toasts :: "toast list"
  start_calls :: "string list"
  status_calls :: "string list"
  url_cleaned :: bool
  start_keys :: "(string \<times> string) list"
  start_pending :: "string option"

definition initial :: controller where
  "initial = \<lparr>interviews = [], interviewing = False, jobId = None, sessionId = [],
     toasts = [], start_calls = [], status_calls = [], url_cleaned = False,
     start_keys = [], start_pending = None\<rparr>"

subsection \<open>The hooks\<close>

text \<open>The key of the start hook: \<^verbatim>\<open>sessionId ? ["start-interviews", sessionId] : null\<close>.\<close>

definition start_key :: "string \<Rightarrow> (string \<times> string) option" where
  "start_key sid = (if sid \<noteq> [] then Some (''start-interviews'', sid) else None)"

text \<open>The key of the status hook:
  \<^verbatim>\<open>jobId ? `${NEXT_PUBLIC_API_URL}${INTERVIEW_STATUS}/${jobId}` : null\<close>.\<close>

definition status_key :: "environment \<Rightarrow> string option \<Rightarrow> string option" where
  "status_key env jid =
     (case jid of
        None \<Rightarrow> None
      | Some j \<Rightarrow> if j \<noteq> [] then Some (api_url env @ INTERVIEW_STATUS @ ''/'' @ j) else None)"

datatype trigger = On_render | On_focus | On_reconnect

text \<open>Modelled from the spec: the hook \<^verbatim>\<open>useSWR\<close> is a library that the repository calls
  and does not contain. Section 4.2 of the specification says that the start is "guarded so
  exactly one start request is ever issued per distinct token, even under
  re-render/reconnect"; the guard is the hook's cache, keyed by the key above. A render runs
  the fetcher when the key is not null and not yet in the cache; a focus or a reconnect runs
  it only when the option of that name is set.\<close>

definition swr_runs_fetcher ::
  "swr_options \<Rightarrow> trigger \<Rightarrow> 'k option \<Rightarrow> 'k list \<Rightarrow> bool" where
  "swr_runs_fetcher opts t key cache =
     (case key of
        None \<Rightarrow> False
      | Some k \<Rightarrow>
          (case t of
             On_render \<Rightarrow> k \<notin> set cache
           | On_focus \<Rightarrow> revalidateOnFocus opts
           | On_reconnect \<Rightarrow> revalidateOnReconnect opts))"

text \<open>The fetcher of the start hook up to its \<^verbatim>\<open>await\<close>: it deletes \<^verbatim>\<open>session_id\<close> from the
  address bar; in development it loads the example records and returns; otherwise it sets
  \<^verbatim>\<open>interviewing\<close> and posts the start request (\<^verbatim>\<open>startInterviews(sessionId)\<close>).\<close>

definition start_fetcher :: "environment \<Rightarrow> controller \<Rightarrow> controller" where
  "start_fetcher env s =
     (let s1 = s\<lparr>url_cleaned := True\<rparr> in
      if development env then s1\<lparr>interviews := defaultInterviews env\<rparr>
      else s1\<lparr>interviewing := True,
              start_calls := start_calls s1 @ [sessionId s1],
              start_pending := Some (sessionId s1)\<rparr>)"

text \<open>\<^verbatim>\<open>onError\<close> of the start hook.\<close>

definition start_onError :: "string \<Rightarrow> controller \<Rightarrow> controller" where
  "start_onError message s =
     s\<lparr>interviewing := False,
       toasts := toasts s @
         [\<lparr>title = ERROR_TITLE, description = Some message, variant = Destructive\<rparr>]\<rparr>"

text \<open>The answer to the start request. \<^verbatim>\<open>startInterviews\<close> throws
  \<^verbatim>\<open>new Error(error.message || "Failed to start interview generation")\<close> on a response that
  is not ok (\<open>Inl\<close>, with the optional \<^verbatim>\<open>message\<close> of the body); otherwise the fetcher goes
  on with \<^verbatim>\<open>setJobId(jobId)\<close>.\<close>

definition start_settled :: "string option + string \<Rightarrow> controller \<Rightarrow> controller" where
  "start_settled r s =
     (case start_pending s of
        None \<Rightarrow> s
      | Some sid \<Rightarrow>
          (case r of
             Inr jid \<Rightarrow> s\<lparr>start_pending := None, jobId := Some jid\<rparr>
           | Inl m \<Rightarrow>
               start_onError
                 (case m of
                    None \<Rightarrow> ''Failed to start interview generation''
                  | Some msg \<Rightarrow> if msg \<noteq> [] then msg
                                else ''Failed to start interview generation'')
                 (s\<lparr>start_pending := None\<rparr>)))"

text \<open>The start hook at a trigger.\<close>

definition start_hook :: "environment \<Rightarrow> trigger \<Rightarrow> controller \<Rightarrow> controller" where
  "start_hook env t s =
     (if swr_runs_fetcher start_options t (start_key (sessionId s)) (start_keys s)
      then start_fetcher env
             (s\<lparr>start_keys := start_keys s @ [(''start-interviews'', sessionId s)]\<rparr>)
      else s)"

text \<open>\<^verbatim>\<open>onSuccess\<close> of the status hook. \<^verbatim>\<open>data.data || []\<close> is the list when the field is
  present (an array is truthy, also the empty one) and the empty list otherwise.\<close>

definition status_onSuccess :: "job_status \<Rightarrow> controller \<Rightarrow> controller" where
  "status_onSuccess d s =
     (if status d = Completed then
        s\<lparr>interviews := (case data d of None \<Rightarrow> [] | Some xs \<Rightarrow> xs),
          interviewing := False,
          jobId := None,
          toasts := toasts s @
            [\<lparr>title = SUCCESS_TITLE, description = Some SUCCESS_DESCRIPTION,
              variant = Default_variant\<rparr>]\<rparr>
      else if status d = Failed then
        s\<lparr>interviewing := False,
          jobId := None,
          toasts := toasts s @
            [\<lparr>title = ERROR_TITLE, description = error d, variant = Destructive\<rparr>]\<rparr>
      else s)"

text \<open>\<^verbatim>\<open>onError\<close> of the status hook.\<close>

definition status_onError :: "string \<Rightarrow> controller \<Rightarrow> controller" where
  "status_onError message s =
     s\<lparr>interviewing := False,
       jobId := None,
       toasts := toasts s @
         [\<lparr>title = ERROR_TITLE, description = Some message, variant = Destructive\<rparr>]\<rparr>"

text \<open>One request of the status hook with its answer. With a null key the hook fetches
  nothing. \<^verbatim>\<open>fetchStatus\<close> throws
  \<^verbatim>\<open>new Error(error.error || "An unexpected error occurred")\<close> on a response that is not ok
  (\<open>Inl\<close>, with the optional \<^verbatim>\<open>error\<close> of the body).\<close>

definition status_poll ::
  "environment \<Rightarrow> string option + job_status \<Rightarrow> controller \<Rightarrow> controller" where
  "status_poll env r s =
     (case status_key env (jobId s) of
        None \<Rightarrow> s
      | Some url \<Rightarrow>
          (let s1 = s\<lparr>status_calls := status_calls s @ [url]\<rparr> in
           case r of
             Inr d \<Rightarrow> status_onSuccess d s1
           | Inl m \<Rightarrow>
               status_onError
                 (case m of
                    None \<Rightarrow> ''An unexpected error occurred''
                  | Some msg \<Rightarrow> if msg \<noteq> [] then msg else ''An unexpected error occurred'')
                 s1))"

subsection \<open>Events of one tab\<close>

text \<open>\<open>Render sid\<close>: the component is rendered with the prop \<^verbatim>\<open>sessionId = sid\<close>;
  \<open>Focus\<close> and \<open>Reconnect\<close>: the window regains focus, the network comes back;
  \<open>Start_answer\<close>: the start request is answered; \<open>Poll\<close>: the status hook's first fetch
  or a tick of its refresh interval (\<^verbatim>\<open>refreshInterval: JOB_STATUS_POLLING_INTERVAL\<close>), with
  the answer.\<close>

datatype event =
    Render string
  | Focus
  | Reconnect
  | Start_answer "string option + string"
  | Poll "string option + job_status"

fun step :: "environment \<Rightarrow> controller \<Rightarrow> event \<Rightarrow> controller" where
  "step env s (Render sid) = start_hook env On_render (s\<lparr>sessionId := sid\<rparr>)"
| "step env s Focus = start_hook env On_focus s"
| "step env s Reconnect = start_hook env On_reconnect s"
| "step env s (Start_answer r) = start_settled r s"
| "step env s (Poll r) = status_poll env r s"

definition run :: "environment \<Rightarrow> controller \<Rightarrow> event list \<Rightarrow> controller" where
  "run env s es = foldl (step env) s es"


section \<open>Strings of the JavaScript runtime\<close>

text \<open>A number inside a template literal is written in decimal.\<close>

definition digit_char :: "nat \<Rightarrow> char" where
  "digit_char d =
     (if d = 0 then CHR ''0'' else if d = 1 then CHR ''1'' else if d = 2 then CHR ''2''
      else if d = 3 then CHR ''3'' else if d = 4 then CHR ''4'' else if d = 5 then CHR ''5''
      else if d = 6 then CHR ''6'' else if d = 7 then CHR ''7'' else if d = 8 then CHR ''8''
      else CHR ''9'')"

function show_nat :: "nat \<Rightarrow> string" where
  "show_nat n =
     (if n < 10 then [digit_char n] else show_nat (n div 10) @ [digit_char (n mod 10)])"
  by pat_completeness auto
termination
  by (relation "measure id") auto

declare show_nat.simps [simp del]

definition show_int :: "int \<Rightarrow> string" where
  "show_int i = (if i < 0 then ''-'' @ show_nat (nat (- i)) else show_nat (nat i))"

text \<open>\<^verbatim>\<open>Array.prototype.join\<close>.\<close>

fun join :: "string \<Rightarrow> string list \<Rightarrow> string" where
  "join sep [] = []"
| "join sep [x] = x"
| "join sep (x # y # ys) = x @ sep @ join sep (y # ys)"

section \<open>Export route (app/api/tables/[table]/route.ts)\<close>

text \<open>A parsed JSON value, as \<^verbatim>\<open>request.json()\<close> returns it. An object is the list of its
  properties in order, with distinct names; numbers are kept to the integers, which is all
  the handlers look at.\<close>

datatype json =
    JNull
  | JBool bool
  | JNum int
  | JStr string
  | JArr "json list"
  | JObj "(string \<times> json) list"

text \<open>JavaScript's \<^verbatim>\<open>!v\<close> is \<open>\<not> truthy v\<close>.\<close>

fun truthy :: "json \<Rightarrow> bool" where
  "truthy JNull = False"
| "truthy (JBool b) = b"
| "truthy (JNum n) = (n \<noteq> 0)"
| "truthy (JStr s) = (s \<noteq> [])"
| "truthy (JArr xs) = True"
| "truthy (JObj kvs) = True"

fun typeof :: "json \<Rightarrow> string" where
  "typeof JNull = ''object''"
| "typeof (JBool b) = ''boolean''"
| "typeof (JNum n) = ''number''"
| "typeof (JStr s) = ''string''"
| "typeof (JArr xs) = ''object''"
| "typeof (JObj kvs) = ''object''"

text \<open>Reading a property by name; \<open>None\<close> is \<^verbatim>\<open>undefined\<close>. Of the values that reach
  the read, only an object can have a property called \<^verbatim>\<open>interviews\<close>.\<close>

fun get_property :: "json \<Rightarrow> string \<Rightarrow> json option" where
  "get_property (JObj kvs) k = map_of kvs k"
| "get_property v k = None"

datatype export_format = CSV | TXT | XLSX | JSON | HTML

fun EXPORT_FORMATS :: "export_format \<Rightarrow> string" where
  "EXPORT_FORMATS CSV = ''csv''"
| "EXPORT_FORMATS TXT = ''txt''"
| "EXPORT_FORMATS XLSX = ''xlsx''"
| "EXPORT_FORMATS JSON = ''json''"
| "EXPORT_FORMATS HTML = ''html''"

fun CONTENT_TYPES :: "export_format \<Rightarrow> string" where
  "CONTENT_TYPES CSV = ''text/csv''"
| "CONTENT_TYPES TXT = ''text/plain''"
| "CONTENT_TYPES XLSX = ''application/vnd.ms-excel''"
| "CONTENT_TYPES JSON = ''application/json''"
| "CONTENT_TYPES HTML = ''text/html''"

definition VALID_TABLES :: "string list" where
  "VALID_TABLES = [''interviews'']"

text \<open>\<^verbatim>\<open>Object.values(EXPORT_FORMATS)\<close>.\<close>

definition validFormats :: "string list" where
  "validFormats = map EXPORT_FORMATS [CSV, TXT, XLSX, JSON, HTML]"

text \<open>A validator throws \<^verbatim>\<open>new Error(message)\<close>: \<open>Inl message\<close>.\<close>

definition validateTableName :: "string \<Rightarrow> string + unit" where
  "validateTableName table =
     (if table = [] then Inl ''Table name is required''
      else if table \<notin> set VALID_TABLES then
        Inl (''Table '' @ [CHR 0x27] @ table @ [CHR 0x27] @
             '' not found. Supported tables: '' @ join '', '' VALID_TABLES)
      else Inr ())"

text \<open>The format is \<^verbatim>\<open>searchParams.get("format")\<close>: \<open>None\<close> when the query has no such
  parameter, and the empty string for \<^verbatim>\<open>?format=\<close>; \<^verbatim>\<open>!format\<close> holds of both.\<close>

definition validateFormat :: "string option \<Rightarrow> string + string" where
  "validateFormat format =
     (case format of
        None \<Rightarrow> Inr (EXPORT_FORMATS HTML)
      | Some f \<Rightarrow>
          if f = [] then Inr (EXPORT_FORMATS HTML)
          else if f \<notin> set validFormats then
            Inl (''Unsupported format '' @ [CHR 0x27] @ f @ [CHR 0x27] @
                 ''. Supported formats: '' @ join '', '' validFormats)
          else Inr f)"

definition validateRequestBody :: "json \<Rightarrow> string + json list" where
  "validateRequestBody body =
     (if \<not> truthy body \<or> typeof body \<noteq> ''object'' then Inl ''Request body is required''
      else
        (case get_property body ''interviews'' of
           None \<Rightarrow> Inl ''No interview data provided''
         | Some ivs \<Rightarrow>
             if \<not> truthy ivs then Inl ''No interview data provided''
             else
               (case ivs of
                  JArr xs \<Rightarrow>
                    if length xs = 0 then Inl ''At least one interview is required for export''
                    else Inr xs
                | _ \<Rightarrow> Inl ''Interview data must be an array'')))"

text \<open>The libraries the handler calls and the repository does not contain: the spreadsheet
  library (\<^verbatim>\<open>XLSX.utils.json_to_sheet\<close>, \<^verbatim>\<open>sheet_to_csv\<close> and \<^verbatim>\<open>sheet_to_txt\<close> with their
  \<^verbatim>\<open>forceQuotes\<close> option, \<^verbatim>\<open>sheet_to_html\<close>, and \<^verbatim>\<open>XLSX.write\<close> of a new workbook with
  the sheets appended under their names) and the JSON serialiser of \<^verbatim>\<open>Response.json\<close> and
  \<^verbatim>\<open>JSON.stringify\<close>. \<open>'ws\<close> is the worksheet type, \<open>'b\<close> the type of response bodies.\<close>

record ('ws, 'b) platform =
  json_to_sheet :: "json list \<Rightarrow> 'ws"
  sheet_to_csv :: "'ws \<Rightarrow> bool \<Rightarrow> 'b"
  sheet_to_txt :: "'ws \<Rightarrow> bool \<Rightarrow> 'b"
  sheet_to_html :: "'ws \<Rightarrow> 'b"
  write_xlsx :: "(string \<times> 'ws) list \<Rightarrow> 'b"
  json_stringify :: "json \<Rightarrow> 'b"

record 'b response =
  status_code :: nat
  headers :: "(string \<times> string) list"
  res_body :: 'b

text \<open>The \<^verbatim>\<open>catch\<close> branch for an \<^verbatim>\<open>Error\<close>. (Its other branch, status 500, is for thrown
  values that are not \<^verbatim>\<open>Error\<close>s; the validators throw none.)\<close>

definition error_response :: "('ws, 'b) platform \<Rightarrow> string \<Rightarrow> 'b response" where
  "error_response P message =
     \<lparr>status_code = 400,
      headers = [(''Content-Type'', ''application/json'')],
      res_body = json_stringify P (JObj [(''error'', JStr message)])\<rparr>"

text \<open>The handler. \<open>table\<close> is the route parameter, \<open>formatParam\<close> the query parameter,
  \<open>parsed\<close> the outcome of \<^verbatim>\<open>request.json()\<close>: the parsed body, or \<open>Inl\<close> the message of the
  error it throws on a body that is not JSON.\<close>

definition POST_export ::
  "('ws, 'b) platform \<Rightarrow> string \<Rightarrow> string option \<Rightarrow> string + json \<Rightarrow> 'b response" where
  "POST_export P table formatParam parsed =
     (case validateTableName table of
        Inl m \<Rightarrow> error_response P m
      | Inr _ \<Rightarrow>
     (case validateFormat formatParam of
        Inl m \<Rightarrow> error_response P m
      | Inr format \<Rightarrow>
     (case parsed of
        Inl m \<Rightarrow> error_response P m
      | Inr body \<Rightarrow>
     (case validateRequestBody body of
        Inl m \<Rightarrow> error_response P m
      | Inr interviewData \<Rightarrow>
          (let worksheet = json_to_sheet P interviewData;
               tableName = ''Interviews''
           in
           if format = EXPORT_FORMATS CSV then
             \<lparr>status_code = 200,
              headers = [(''Content-Disposition'',
                            ''attachment; filename=\"'' @ tableName @ ''.csv\"''),
                         (''Content-Type'', CONTENT_TYPES CSV)],
              res_body = sheet_to_csv P worksheet True\<rparr>
           else if format = EXPORT_FORMATS TXT then
             \<lparr>status_code = 200,
              headers = [(''Content-Disposition'',
                            ''attachment; filename=\"'' @ tableName @ ''.txt\"''),
                         (''Content-Type'', CONTENT_TYPES TXT)],
              res_body = sheet_to_txt P worksheet True\<rparr>
           else if format = EXPORT_FORMATS XLSX then
             \<lparr>status_code = 200,
              headers = [(''Content-Disposition'',
                            ''attachment; filename=\"'' @ tableName @ ''.xlsx\"''),
                         (''Content-Type'', CONTENT_TYPES XLSX)],
              res_body = write_xlsx P [(''Interviews'', worksheet)]\<rparr>
           else if format = EXPORT_FORMATS JSON then
             \<lparr>status_code = 200,
              headers = [(''Content-Type'', CONTENT_TYPES JSON)],
              res_body = json_stringify P (JArr interviewData)\<rparr>
           else
             \<lparr>status_code = 200,
              headers = [(''Content-Type'', CONTENT_TYPES HTML)],
              res_body = sheet_to_html P worksheet\<rparr>)))))"


text \<open>The body \<^verbatim>\<open>{ interviews }\<close> that \<^verbatim>\<open>makeExportRequest\<close> posts.\<close>

definition export_request_body :: "json list \<Rightarrow> json" where
  "export_request_body records = JObj [(''interviews'', JArr records)]"

section \<open>Export transport and file delivery (lib/export-utils.ts, constants/app.ts)\<close>

text \<open>The regular expression \<^verbatim>\<open>/filename="(.+)"/\<close>. A dot matches every character but a
  line terminator; of those, the 8-bit characters of a header value are line feed and
  carriage return.\<close>

definition line_terminator :: "char \<Rightarrow> bool" where
  "line_terminator c = (c = CHR 0x0A \<or> c = CHR 0x0D)"

text \<open>The group \<^verbatim>\<open>(.+)\<close> followed by the closing quote, matched at the start of \<open>rest\<close>:
  the dot is greedy, so the group runs to the last double quote before the first line
  terminator, and holds at least one character.\<close>

definition filename_capture :: "string \<Rightarrow> string option" where
  "filename_capture rest =
     (let dots = takeWhile (\<lambda>c. \<not> line_terminator c) rest;
          upto = rev (dropWhile (\<lambda>c. c \<noteq> CHR 0x22) (rev dots))
      in if 2 \<le> length upto then Some (butlast upto) else None)"

text \<open>The literal part \<^verbatim>\<open>filename="\<close> of the pattern, and matching a literal at the start
  of a string: the rest of the string when it starts with the literal.\<close>

definition filename_literal :: string where
  "filename_literal = ''filename=\"''"

fun strip_literal :: "string \<Rightarrow> string \<Rightarrow> string option" where
  "strip_literal [] s = Some s"
| "strip_literal (p # ps) [] = None"
| "strip_literal (p # ps) (c # cs) = (if p = c then strip_literal ps cs else None)"

text \<open>The pattern matched at the start of a string, reduced to the group it captures.\<close>

definition filename_match_here :: "string \<Rightarrow> string option" where
  "filename_match_here s =
     (case strip_literal filename_literal s of
        None \<Rightarrow> None
      | Some rest \<Rightarrow> filename_capture rest)"

text \<open>\<^verbatim>\<open>filenameRegex.exec(s)\<close>, reduced to the group it captures: the match at the
  leftmost position where the pattern matches, \<open>None\<close> when there is none.\<close>

fun filenameRegex_exec :: "string \<Rightarrow> string option" where
  "filenameRegex_exec [] = None"
| "filenameRegex_exec (c # cs) =
     (case filename_match_here (c # cs) of
        Some m \<Rightarrow> Some m
      | None \<Rightarrow> filenameRegex_exec cs)"


text \<open>\<^verbatim>\<open>response.ok\<close>: the status is in the range 200 to 299.\<close>

definition ok :: "'b response \<Rightarrow> bool" where
  "ok r = (200 \<le> status_code r \<and> status_code r \<le> 299)"


text \<open>The calls that file delivery makes on the browser, in order. A timer holds the calls
  of its callback and its delay in milliseconds.\<close>

datatype 'b browser_call =
    CreateObjectURL 'b
  | WindowOpen string string
  | SetTimeout "'b browser_call list" nat
  | RevokeObjectURL string
  | CreateElement string
  | SetHref string
  | SetDownload string
  | AppendChild
  | Click
  | Remove




text \<open>The older, exported \<^verbatim>\<open>handleExport\<close> that takes an \<^verbatim>\<open>Export\<close> object (a module that
  no other file imports), from the outcome of its \<^verbatim>\<open>fetch\<close>. It posts the bare array of
  records (\<^verbatim>\<open>JSON.stringify(interviews)\<close>), throws "Export failed" on a response that is
  not ok, and on its new-tab path revokes the object URL right after opening it.\<close>

definition legacy_request_body :: "json list \<Rightarrow> json" where
  "legacy_request_body records = JArr records"

definition legacy_handleExport ::
  "string \<Rightarrow> string + 'b response \<Rightarrow> bool \<Rightarrow> string \<Rightarrow> string + 'b browser_call list" where
  "legacy_handleExport url fetched newTab defaultFileName =
     (case fetched of
        Inl m \<Rightarrow> Inl m
      | Inr r \<Rightarrow>
          if \<not> ok r then Inl ''Export failed''
          else
            (let blob = res_body r;
                 contentDisposition =
                   (case map_of (headers r) ''Content-Disposition'' of
                      None \<Rightarrow> []
                    | Some h \<Rightarrow> h);
                 fileName =
                   (case filenameRegex_exec contentDisposition of
                      None \<Rightarrow> defaultFileName
                    | Some m \<Rightarrow> if m \<noteq> [] then m else defaultFileName)
             in
             if newTab then
               Inr [CreateObjectURL blob, WindowOpen url ''_blank'', RevokeObjectURL url]
             else
               Inr [CreateObjectURL blob, CreateElement ''a'', SetHref url,
                    SetDownload fileName, AppendChild, Click, Remove,
                    RevokeObjectURL url]))"

text \<open>\<^verbatim>\<open>EXPORT_FORMATS\<close> of constants/app.ts, the entries of the export menus.\<close>

record export_option =
  label :: string
  path :: string
  newTab :: bool



section \<open>Checkout (app/api/checkout/route.ts, lib/validation.ts)\<close>

text \<open>The body of the checkout request after \<^verbatim>\<open>req.json()\<close>. Every field may be missing
  (\<open>None\<close>); the count is kept to the integers.\<close>

record checkout_request_body =
  req_role :: "string option"
  req_industry :: "string option"
  req_range :: "string option"
  req_employee_range :: "string option"
  req_interviews :: "int option"
  req_returnUrl :: "string option"

text \<open>\<^verbatim>\<open>process.env.STRIPE_SECRET_KEY\<close> and \<^verbatim>\<open>process.env.NEXT_PUBLIC_STRIPE_PRICE\<close>.\<close>

record checkout_env =
  STRIPE_SECRET_KEY :: "string option"
  NEXT_PUBLIC_STRIPE_PRICE :: "string option"

text \<open>\<^verbatim>\<open>!x\<close> on an optional string is \<open>\<not> present x\<close>: it holds of a missing value and
  of the empty string.\<close>

definition present :: "string option \<Rightarrow> bool" where
  "present x = (case x of None \<Rightarrow> False | Some v \<Rightarrow> v \<noteq> [])"

text \<open>\<^verbatim>\<open>x || d\<close> on an optional string and on an optional number: the default replaces a
  missing value, the empty string and zero.\<close>

definition or_string :: "string option \<Rightarrow> string \<Rightarrow> string" where
  "or_string x d = (case x of None \<Rightarrow> d | Some v \<Rightarrow> if v \<noteq> [] then v else d)"

definition or_number :: "int option \<Rightarrow> int \<Rightarrow> int" where
  "or_number x d = (case x of None \<Rightarrow> d | Some v \<Rightarrow> if v \<noteq> 0 then v else d)"

record checkout_metadata =
  md_role :: string
  md_industry :: string
  md_range :: string
  md_employee_range :: string
  md_country :: string
  md_processed :: string

definition DEFAULT_CHECKOUT_VALUES :: checkout_metadata where
  "DEFAULT_CHECKOUT_VALUES =
     \<lparr>md_role = ''Software Engineer'',
      md_industry = ''Technology, Information and Internet'',
      md_range = ''2-7'',
      md_employee_range = ''100-1000'',
      md_country = ''USA'',
      md_processed = ''no''\<rparr>"

text \<open>The argument of \<^verbatim>\<open>stripe.checkout.sessions.create\<close>; a line item is a price with a
  quantity.\<close>

record session_params =
  payment_method_types :: "string list"
  line_items :: "(string \<times> int) list"
  mode :: string
  success_url :: string
  cancel_url :: string
  metadata :: checkout_metadata

text \<open>The handler up to the call of the payment provider: \<open>Inl\<close> the message of the error
  thrown by one of its checks, or the parameters of the session to create.\<close>

definition checkout_session_params ::
  "checkout_env \<Rightarrow> checkout_request_body \<Rightarrow> string + session_params" where
  "checkout_session_params env requestBody =
     (if \<not> present (STRIPE_SECRET_KEY env) then
        Inl ''Stripe secret key is not configured''
      else if \<not> present (NEXT_PUBLIC_STRIPE_PRICE env) then
        Inl ''Stripe price ID is not configured''
      else if \<not> present (req_returnUrl requestBody) then
        Inl ''Return URL is required''
      else
        (let returnUrl = or_string (req_returnUrl requestBody) [];
             interviewCount = or_number (req_interviews requestBody) 5
         in
         if interviewCount < 1 \<or> interviewCount > 50 then
           Inl ''Interview count must be between 1 and 50''
         else
           Inr \<lparr>payment_method_types = [''card''],
                line_items =
                  [(or_string (NEXT_PUBLIC_STRIPE_PRICE env) [], interviewCount)],
                mode = ''payment'',
                success_url = returnUrl @ ''?session_id={CHECKOUT_SESSION_ID}'',
                cancel_url = returnUrl,
                metadata =
                  \<lparr>md_role = or_string (req_role requestBody)
                                (md_role DEFAULT_CHECKOUT_VALUES),
                   md_industry = or_string (req_industry requestBody)
                                (md_industry DEFAULT_CHECKOUT_VALUES),
                   md_range = or_string (req_range requestBody)
                                (md_range DEFAULT_CHECKOUT_VALUES),
                   md_employee_range = or_string (req_employee_range requestBody)
                                (md_employee_range DEFAULT_CHECKOUT_VALUES),
                   md_country = md_country DEFAULT_CHECKOUT_VALUES,
                   md_processed = md_processed DEFAULT_CHECKOUT_VALUES\<rparr>\<rparr>))"

text \<open>The handler. \<open>create\<close> is \<^verbatim>\<open>stripe.checkout.sessions.create\<close>: the session, or \<open>Inl\<close>
  the message of the error it throws. Every error is answered with status 500 and the
  message; success with the session.\<close>

definition POST_checkout ::
  "checkout_env \<Rightarrow> (session_params \<Rightarrow> string + 's) \<Rightarrow> checkout_request_body \<Rightarrow>
   (nat \<times> string) + 's" where
  "POST_checkout env create requestBody =
     (case checkout_session_params env requestBody of
        Inl m \<Rightarrow> Inl (500, m)
      | Inr params \<Rightarrow>
          (case create params of
             Inl m \<Rightarrow> Inl (500, m)
           | Inr session \<Rightarrow> Inr session))"

text \<open>\<^verbatim>\<open>validateInterviewCount\<close> of lib/validation.ts, which \<^verbatim>\<open>validateInterviewForm\<close> calls
  with the bounds 5 and 20.\<close>

record validation_result =
  isValid :: bool
  validation_error :: "string option"

definition validateInterviewCount :: "int \<Rightarrow> int \<Rightarrow> int \<Rightarrow> validation_result" where
  "validateInterviewCount count minimum maximum =
     (if count < minimum then
        \<lparr>isValid = False,
         validation_error = Some (''Minimum '' @ show_int minimum @ '' interviews required'')\<rparr>
      else if count > maximum then
        \<lparr>isValid = False,
         validation_error = Some (''Maximum '' @ show_int maximum @ '' interviews allowed'')\<rparr>
      else \<lparr>isValid = True, validation_error = None\<rparr>)"

section \<open>Reading records back, and concrete inputs\<close>



text \<open>A platform for evaluating the handlers on concrete requests: a worksheet is the list
  of its records and every body is a JSON value, so that the serialiser is the identity and
  \<open>Some\<close> parses what it writes.\<close>

definition echo_platform :: "(json list, json) platform" where
  "echo_platform =
     \<lparr>json_to_sheet = (\<lambda>xs. xs),
      sheet_to_csv = (\<lambda>ws q. JArr ws),
      sheet_to_txt = (\<lambda>ws q. JArr ws),
      sheet_to_html = JArr,
      write_xlsx = (\<lambda>sheets. JArr (concat (map snd sheets))),
      json_stringify = (\<lambda>v. v)\<rparr>"

definition production_env :: environment where
  "production_env =
     \<lparr>development = False, api_url = ''https://api.example'', defaultInterviews = []\<rparr>"


definition example_interview :: "string \<Rightarrow> interview" where
  "example_interview r =
     \<lparr>role = r, industry = ''Tech'', question_one = ''a'', question_two = ''b'',
      question_three = ''c'', question_four = ''d'', question_five = ''e''\<rparr>"

definition pending_status :: "nat \<Rightarrow> job_status" where
  "pending_status p = \<lparr>status = Pending, data = None, error = None, progress = Some p\<rparr>"

definition polling_state :: controller where
  "polling_state = initial\<lparr>interviewing := True, jobId := Some ''job_1''\<rparr>"

definition checkout_example_env :: checkout_env where
  "checkout_example_env =
     \<lparr>STRIPE_SECRET_KEY = Some ''secret'', NEXT_PUBLIC_STRIPE_PRICE = Some ''price_1''\<rparr>"

definition checkout_example_request :: "int \<Rightarrow> checkout_request_body" where
  "checkout_example_request n =
     \<lparr>req_role = Some ''PM'', req_industry = Some [], req_range = None,
      req_employee_range = Some ''10-50'', req_interviews = Some n,
      req_returnUrl = Some ''https://app.example''\<rparr>"

section \<open>Properties of the job lifecycle controller\<close>

lemma run_Nil: "run env s [] = s"
  by (simp add: run_def)

lemma run_Cons: "run env s (e # es) = run env (step env s e) es"
  by (simp add: run_def)

lemma run_append: "run env s (es @ fs) = run env (run env s es) fs"
  by (simp add: run_def)


subsection \<open>The start request\<close>

















subsection \<open>Polling to a terminal status\<close>

lemma status_poll_idle: "jobId s = None \<Longrightarrow> status_poll env r s = s"
  by (simp add: status_poll_def status_key_def)

text \<open>Once the job handle is cleared, further polls change nothing.\<close>

lemma run_polls_idle: "jobId s = None \<Longrightarrow> run env s (map Poll rs) = s"
  by (induction rs) (simp_all add: run_Nil run_Cons status_poll_idle)

lemma status_poll_pending:
  "status d = Pending \<Longrightarrow>
   status_poll env (Inr d) s =
     (case status_key env (jobId s) of
        None \<Rightarrow> s
      | Some url \<Rightarrow> s\<lparr>status_calls := status_calls s @ [url]\<rparr>)"
  by (simp add: status_poll_def status_onSuccess_def split: option.splits)

lemma run_pending:
  "\<forall>p\<in>set ps. status p = Pending \<Longrightarrow>
   interviews (run env s (map (\<lambda>p. Poll (Inr p)) ps)) = interviews s \<and>
   interviewing (run env s (map (\<lambda>p. Poll (Inr p)) ps)) = interviewing s \<and>
   jobId (run env s (map (\<lambda>p. Poll (Inr p)) ps)) = jobId s \<and>
   toasts (run env s (map (\<lambda>p. Poll (Inr p)) ps)) = toasts s"
proof (induction ps arbitrary: s)
  case Nil
  then show ?case by (simp add: run_Nil)
next
  case (Cons p ps)
  have p: "status p = Pending" using Cons.prems by simp
  have rest: "\<forall>q\<in>set ps. status q = Pending" using Cons.prems by simp
  show ?case
    using Cons.IH [OF rest, of "status_poll env (Inr p) s"]
    by (simp add: run_Cons status_poll_pending [OF p] split: option.splits)
qed

text \<open>C2: when a job that is being polled answers any number of times with status pending
  and then with status completed, the interviews of the application state are the result
  list of that answer (the empty list when it carries none), \<^verbatim>\<open>interviewing\<close> is false, the
  job id is cleared, and exactly one toast has been added, the success toast; polls that
  come later find no job id, fetch nothing and change nothing.\<close>

theorem completed_job:
  assumes "jobId s = Some j" and "j \<noteq> []"
    and "\<forall>p\<in>set ps. status p = Pending" and "status d = Completed"
  shows "let s' = run env s (map (\<lambda>p. Poll (Inr p)) ps @ [Poll (Inr d)] @ map Poll later)
         in interviews s' = (case data d of None \<Rightarrow> [] | Some xs \<Rightarrow> xs) \<and>
            \<not> interviewing s' \<and> jobId s' = None \<and>
            toasts s' = toasts s @
              [\<lparr>title = SUCCESS_TITLE, description = Some SUCCESS_DESCRIPTION,
                variant = Default_variant\<rparr>]"
proof -
  define s1 where "s1 = run env s (map (\<lambda>p. Poll (Inr p)) ps)"
  define s2 where "s2 = status_poll env (Inr d) s1"
  have s1: "interviews s1 = interviews s" "jobId s1 = Some j" "toasts s1 = toasts s"
    using run_pending [OF assms(3), of env s] assms(1) by (simp_all add: s1_def)
  have s2: "interviews s2 = (case data d of None \<Rightarrow> [] | Some xs \<Rightarrow> xs)"
    "\<not> interviewing s2" "jobId s2 = None"
    "toasts s2 = toasts s @
       [\<lparr>title = SUCCESS_TITLE, description = Some SUCCESS_DESCRIPTION,
         variant = Default_variant\<rparr>]"
    using s1 assms(2,4)
    by (simp_all add: s2_def status_poll_def status_key_def status_onSuccess_def)
  have "run env s (map (\<lambda>p. Poll (Inr p)) ps @ [Poll (Inr d)] @ map Poll later) = s2"
    using run_polls_idle [OF s2(3)]
    by (simp add: run_append run_Cons run_Nil s1_def [symmetric] s2_def [symmetric])
  then show ?thesis using s2 by simp
qed

text \<open>The status sequence pending (10%), pending (55%), completed with two records.\<close>

theorem completed_job_witness:
  "jobId polling_state = Some ''job_1'' \<and>
   (let s' = run production_env polling_state
               [Poll (Inr (pending_status 10)), Poll (Inr (pending_status 55)),
                Poll (Inr \<lparr>status = Completed,
                           data = Some [example_interview ''PM'', example_interview ''QA''],
                           error = None, progress = None\<rparr>)]
    in interviews s' = [example_interview ''PM'', example_interview ''QA''] \<and>
       \<not> interviewing s' \<and> jobId s' = None \<and>
       toasts s' = [\<lparr>title = ''Success!'',
                      description = Some ''Your interviews have been generated.'',
                      variant = Default_variant\<rparr>])"
  using completed_job [of polling_state "''job_1''"
      "[pending_status 10, pending_status 55]"
      "\<lparr>status = Completed,
        data = Some [example_interview ''PM'', example_interview ''QA''],
        error = None, progress = None\<rparr>" production_env "[]"]
  by (simp add: polling_state_def initial_def pending_status_def SUCCESS_TITLE_def
      SUCCESS_DESCRIPTION_def)

text \<open>C3: when a job that is being polled answers any number of times with status pending
  and then with status failed, \<^verbatim>\<open>interviewing\<close> is false, the job id is cleared, exactly
  one toast has been added, the error toast whose description is the \<^verbatim>\<open>error\<close> field of
  that answer, and the interviews of the application state are the ones from before; polls
  that come later change nothing.\<close>

theorem failed_job:
  assumes "jobId s = Some j" and "j \<noteq> []"
    and "\<forall>p\<in>set ps. status p = Pending" and "status d = Failed"
  shows "let s' = run env s (map (\<lambda>p. Poll (Inr p)) ps @ [Poll (Inr d)] @ map Poll later)
         in \<not> interviewing s' \<and> jobId s' = None \<and>
            toasts s' = toasts s @
              [\<lparr>title = ERROR_TITLE, description = error d, variant = Destructive\<rparr>] \<and>
            interviews s' = interviews s"
proof -
  define s1 where "s1 = run env s (map (\<lambda>p. Poll (Inr p)) ps)"
  define s2 where "s2 = status_poll env (Inr d) s1"
  have s1: "interviews s1 = interviews s" "jobId s1 = Some j" "toasts s1 = toasts s"
    using run_pending [OF assms(3), of env s] assms(1) by (simp_all add: s1_def)
  have s2: "interviews s2 = interviews s" "\<not> interviewing s2" "jobId s2 = None"
    "toasts s2 = toasts s @
       [\<lparr>title = ERROR_TITLE, description = error d, variant = Destructive\<rparr>]"
    using s1 assms(2,4)
    by (simp_all add: s2_def status_poll_def status_key_def status_onSuccess_def)
  have "run env s (map (\<lambda>p. Poll (Inr p)) ps @ [Poll (Inr d)] @ map Poll later) = s2"
    using run_polls_idle [OF s2(3)]
    by (simp add: run_append run_Cons run_Nil s1_def [symmetric] s2_def [symmetric])
  then show ?thesis using s2 by simp
qed

text \<open>The status sequence pending (0%), failed with the error "quota exceeded", on a tab
  that shows one record from an earlier run.\<close>

theorem failed_job_witness:
  "jobId (polling_state\<lparr>interviews := [example_interview ''PM'']\<rparr>) = Some ''job_1'' \<and>
   (let s' = run production_env (polling_state\<lparr>interviews := [example_interview ''PM'']\<rparr>)
               [Poll (Inr (pending_status 0)),
                Poll (Inr \<lparr>status = Failed, data = None, error = Some ''quota exceeded'',
                           progress = None\<rparr>)]
    in \<not> interviewing s' \<and> jobId s' = None \<and>
       toasts s' = [\<lparr>title = ''Error'', description = Some ''quota exceeded'',
                      variant = Destructive\<rparr>] \<and>
       interviews s' = [example_interview ''PM''])"
  using failed_job [of "polling_state\<lparr>interviews := [example_interview ''PM'']\<rparr>" "''job_1''"
      "[pending_status 0]"
      "\<lparr>status = Failed, data = None, error = Some ''quota exceeded'', progress = None\<rparr>"
      production_env "[]"]
  by (simp add: polling_state_def initial_def pending_status_def ERROR_TITLE_def)

section \<open>Properties of the export route\<close>

lemma validateTableName_interviews: "validateTableName ''interviews'' = Inr ()"
  by (simp add: validateTableName_def VALID_TABLES_def)

lemma validateTableName_unknown:
  "table \<noteq> ''interviews'' \<Longrightarrow> \<exists>m. validateTableName table = Inl m"
  by (simp add: validateTableName_def VALID_TABLES_def)

lemma validateFormat_known:
  "validateFormat (Some (EXPORT_FORMATS f)) = Inr (EXPORT_FORMATS f)"
  by (cases f) (simp_all add: validateFormat_def validFormats_def)

lemma validateFormat_absent: "validateFormat None = Inr (EXPORT_FORMATS HTML)"
  by (simp add: validateFormat_def)

lemma validateRequestBody_empty:
  "map_of kvs ''interviews'' = Some (JArr []) \<Longrightarrow>
   validateRequestBody (JObj kvs) = Inl ''At least one interview is required for export''"
  by (simp add: validateRequestBody_def)

lemma validateRequestBody_records:
  "map_of kvs ''interviews'' = Some (JArr xs) \<Longrightarrow> xs \<noteq> [] \<Longrightarrow>
   validateRequestBody (JObj kvs) = Inr xs"
  by (simp add: validateRequestBody_def)

lemma POST_export_invalid_body:
  "validateRequestBody b = Inl m \<Longrightarrow>
   \<exists>m'. POST_export P table formatParam (Inr b) = error_response P m'"
  by (auto simp: POST_export_def split: sum.splits)

lemma POST_export_valid_params:
  "validateFormat formatParam = Inr f \<Longrightarrow> validateRequestBody b = Inl m \<Longrightarrow>
   POST_export P ''interviews'' formatParam (Inr b) = error_response P m"
  by (simp add: POST_export_def validateTableName_interviews)



text \<open>C5: a request whose body carries an empty list of records is answered with an error
  response of status 400, whatever the table and the format parameter; for the table
  \<^verbatim>\<open>interviews\<close> and each of the five formats, or no format, the message is the one of the
  check for an empty list.\<close>

theorem export_empty_rejected:
  assumes "map_of kvs ''interviews'' = Some (JArr [])"
  shows "(\<exists>m. POST_export P table formatParam (Inr (JObj kvs)) = error_response P m) \<and>
         status_code (POST_export P table formatParam (Inr (JObj kvs))) = 400 \<and>
         POST_export P ''interviews'' (Some (EXPORT_FORMATS f)) (Inr (JObj kvs)) =
           error_response P ''At least one interview is required for export'' \<and>
         POST_export P ''interviews'' None (Inr (JObj kvs)) =
           error_response P ''At least one interview is required for export''"
proof -
  note empty = validateRequestBody_empty [OF assms]
  obtain m where m: "POST_export P table formatParam (Inr (JObj kvs)) = error_response P m"
    using POST_export_invalid_body [OF empty] by blast
  have "status_code (POST_export P table formatParam (Inr (JObj kvs))) = 400"
    by (simp add: m error_response_def)
  moreover have "POST_export P ''interviews'' (Some (EXPORT_FORMATS f)) (Inr (JObj kvs)) =
      error_response P ''At least one interview is required for export''"
    using POST_export_valid_params [OF validateFormat_known empty] .
  moreover have "POST_export P ''interviews'' None (Inr (JObj kvs)) =
      error_response P ''At least one interview is required for export''"
    using POST_export_valid_params [OF validateFormat_absent empty] .
  ultimately show ?thesis using m by blast
qed

theorem export_empty_rejected_witness:
  "map_of [(''interviews'', JArr [])] ''interviews'' = Some (JArr []) \<and>
   POST_export echo_platform ''interviews'' (Some ''csv'') (Inr (export_request_body [])) =
     \<lparr>status_code = 400, headers = [(''Content-Type'', ''application/json'')],
      res_body = JObj [(''error'', JStr ''At least one interview is required for export'')]\<rparr>"
  using export_empty_rejected [of "[(''interviews'', JArr [])]" echo_platform
      "''interviews''" "Some ''csv''" CSV]
  by (simp add: export_request_body_def error_response_def echo_platform_def)

text \<open>C6, as the claim states it, fails at the request \<^verbatim>\<open>?format=\<close>: the format value is
  the empty string, which is none of the five recognised values, and the answer is the HTML
  rendering with status 200, not an error.\<close>

theorem format_asymmetry_counterexample:
  "[] \<notin> set validFormats \<and> validateFormat (Some []) = Inr ''html'' \<and>
   POST_export echo_platform ''interviews'' (Some [])
       (Inr (export_request_body [JObj [(''role'', JStr ''PM'')]])) =
     \<lparr>status_code = 200, headers = [(''Content-Type'', ''text/html'')],
      res_body = JArr [JObj [(''role'', JStr ''PM'')]]\<rparr>"
  by (simp add: validateFormat_def validFormats_def POST_export_def validateTableName_def
      VALID_TABLES_def validateRequestBody_def export_request_body_def echo_platform_def)

text \<open>C6 (amended): a request with no format parameter, or with an empty one, is treated as
  a request for HTML: for the table \<^verbatim>\<open>interviews\<close> and a non-empty list of records the
  answer has status 200, the HTML content type and the HTML rendering as its body. A format
  value that is not empty and not one of the five recognised values is answered with an
  error response, and so is every table name other than \<^verbatim>\<open>interviews\<close>, whatever the rest
  of the request.\<close>

theorem format_asymmetry:
  "validateFormat None = Inr (EXPORT_FORMATS HTML) \<and>
   validateFormat (Some []) = Inr (EXPORT_FORMATS HTML) \<and>
   (map_of kvs ''interviews'' = Some (JArr xs) \<and> xs \<noteq> [] \<and> (fmt = None \<or> fmt = Some [])
      \<longrightarrow> POST_export P ''interviews'' fmt (Inr (JObj kvs)) =
            \<lparr>status_code = 200, headers = [(''Content-Type'', CONTENT_TYPES HTML)],
             res_body = sheet_to_html P (json_to_sheet P xs)\<rparr>) \<and>
   (f \<noteq> [] \<and> f \<notin> set validFormats
      \<longrightarrow> (\<exists>m. validateFormat (Some f) = Inl m) \<and>
          (\<exists>m. POST_export P table (Some f) parsed = error_response P m)) \<and>
   (table \<noteq> ''interviews''
      \<longrightarrow> (\<exists>m. validateTableName table = Inl m) \<and>
          (\<exists>m. POST_export P table fmt parsed = error_response P m))"
proof -
  have absent: "validateFormat None = Inr (EXPORT_FORMATS HTML)"
    "validateFormat (Some []) = Inr (EXPORT_FORMATS HTML)"
    by (simp_all add: validateFormat_def)
  have html: "POST_export P ''interviews'' fmt (Inr (JObj kvs)) =
      \<lparr>status_code = 200, headers = [(''Content-Type'', CONTENT_TYPES HTML)],
       res_body = sheet_to_html P (json_to_sheet P xs)\<rparr>"
    if "map_of kvs ''interviews'' = Some (JArr xs)" "xs \<noteq> []" "fmt = None \<or> fmt = Some []"
    using that absent validateRequestBody_records [OF that(1,2)]
    by (auto simp: POST_export_def validateTableName_interviews)
  have unknown: "(\<exists>m. validateFormat (Some f) = Inl m) \<and>
      (\<exists>m. POST_export P table (Some f) parsed = error_response P m)"
    if "f \<noteq> []" "f \<notin> set validFormats"
  proof -
    have "\<exists>m. validateFormat (Some f) = Inl m" using that by (simp add: validateFormat_def)
    then show ?thesis by (auto simp: POST_export_def split: sum.splits)
  qed
  have other: "(\<exists>m. validateTableName table = Inl m) \<and>
      (\<exists>m. POST_export P table fmt parsed = error_response P m)"
    if "table \<noteq> ''interviews''"
  proof -
    have "\<exists>m. validateTableName table = Inl m" using that by (rule validateTableName_unknown)
    then show ?thesis by (auto simp: POST_export_def)
  qed
  show ?thesis using absent html unknown other by blast
qed

theorem format_asymmetry_witness:
  "POST_export echo_platform ''interviews'' None
       (Inr (JObj [(''interviews'', JArr [JObj [(''role'', JStr ''PM'')]])])) =
     \<lparr>status_code = 200, headers = [(''Content-Type'', ''text/html'')],
      res_body = JArr [JObj [(''role'', JStr ''PM'')]]\<rparr> \<and>
   ''pdf'' \<notin> set validFormats \<and>
   (\<exists>m. POST_export echo_platform ''users'' (Some ''pdf'') (Inr JNull) =
          error_response echo_platform m) \<and>
   (\<exists>m. POST_export echo_platform ''users'' None (Inr JNull) =
          error_response echo_platform m)"
  using format_asymmetry [of "[(''interviews'', JArr [JObj [(''role'', JStr ''PM'')]])]"
      "[JObj [(''role'', JStr ''PM'')]]" None echo_platform "''pdf''" "''users''" "Inr JNull"]
  by (simp add: validFormats_def echo_platform_def)



section \<open>Properties of the export transport and of file delivery\<close>













text \<open>The older \<^verbatim>\<open>handleExport\<close> delivers nothing that this repository's export route
  produces: the route answers the bare array it posts with status 400.\<close>

lemma validateRequestBody_array: "\<exists>m. validateRequestBody (JArr xs) = Inl m"
  by (simp add: validateRequestBody_def)

lemma POST_export_array_rejected:
  "status_code (POST_export P table formatParam (Inr (JArr xs))) = 400"
proof -
  obtain m where "validateRequestBody (JArr xs) = Inl m"
    using validateRequestBody_array by blast
  then obtain m' where
    "POST_export P table formatParam (Inr (JArr xs)) = error_response P m'"
    using POST_export_invalid_body by blast
  then show ?thesis by (simp add: error_response_def)
qed

lemma legacy_handleExport_fails:
  "legacy_handleExport url
     (Inr (POST_export P table formatParam (Inr (legacy_request_body records)))) tab d =
   Inl ''Export failed''"
  by (simp add: legacy_handleExport_def legacy_request_body_def ok_def
      POST_export_array_rejected)

lemma legacy_handleExport_new_tab:
  "ok r \<Longrightarrow>
   legacy_handleExport url (Inr r) True d =
     Inr [CreateObjectURL (res_body r), WindowOpen url ''_blank'', RevokeObjectURL url]"
  by (simp add: legacy_handleExport_def)



section \<open>Properties of the checkout route\<close>

lemma or_string_nonempty: "d \<noteq> [] \<Longrightarrow> or_string x d \<noteq> []"
  by (simp add: or_string_def split: option.splits)

lemma checkout_session_params_metadata:
  "checkout_session_params env requestBody = Inr params \<Longrightarrow>
   metadata params =
     \<lparr>md_role = or_string (req_role requestBody) ''Software Engineer'',
      md_industry = or_string (req_industry requestBody)
                      ''Technology, Information and Internet'',
      md_range = or_string (req_range requestBody) ''2-7'',
      md_employee_range = or_string (req_employee_range requestBody) ''100-1000'',
      md_country = ''USA'',
      md_processed = ''no''\<rparr>"
  by (auto simp: checkout_session_params_def DEFAULT_CHECKOUT_VALUES_def Let_def
      split: if_splits)

text \<open>C4, as the claim states it, fails at the count 21: with the two environment variables
  set and a return URL given, the handler passes its checks and creates a session for 21
  interviews. (\<open>Inr\<close> stands for a payment provider that accepts the parameters and
  returns them as the session.)\<close>

theorem checkout_count_counterexample:
  "POST_checkout checkout_example_env Inr (checkout_example_request 21) =
     Inr \<lparr>payment_method_types = [''card''], line_items = [(''price_1'', 21)],
          mode = ''payment'',
          success_url = ''https://app.example?session_id={CHECKOUT_SESSION_ID}'',
          cancel_url = ''https://app.example'',
          metadata =
            \<lparr>md_role = ''PM'', md_industry = ''Technology, Information and Internet'',
             md_range = ''2-7'', md_employee_range = ''10-50'', md_country = ''USA'',
             md_processed = ''no''\<rparr>\<rparr>"
  by (simp add: POST_checkout_def checkout_session_params_def checkout_example_env_def
      checkout_example_request_def present_def or_string_def or_number_def
      DEFAULT_CHECKOUT_VALUES_def)

text \<open>C4 (amended): with the two environment variables set and a return URL given, the
  checkout handler rejects every count below 0 and every count above 50 with status 500
  and the message "Interview count must be between 1 and 50", and for every count from 1
  to 50 it passes its checks and asks the payment provider for a session with that
  quantity. The range from 5 to 20 is the one of the form: \<^verbatim>\<open>validateInterviewCount\<close> with
  the bounds 5 and 20 accepts exactly the counts from 5 to 20.\<close>

theorem checkout_count_bounds:
  assumes "present (STRIPE_SECRET_KEY env)"
    and "NEXT_PUBLIC_STRIPE_PRICE env = Some price" and "price \<noteq> []"
    and "req_returnUrl requestBody = Some returnUrl" and "returnUrl \<noteq> []"
    and "req_interviews requestBody = Some n"
  shows "(n < 0 \<or> 50 < n \<longrightarrow>
            POST_checkout env create requestBody =
              Inl (500, ''Interview count must be between 1 and 50'')) \<and>
         (1 \<le> n \<and> n \<le> 50 \<longrightarrow>
            (\<exists>params. checkout_session_params env requestBody = Inr params \<and>
               line_items params = [(price, n)] \<and>
               POST_checkout env create requestBody =
                 (case create params of
                    Inl m \<Rightarrow> Inl (500, m)
                  | Inr session \<Rightarrow> Inr session))) \<and>
         (isValid (validateInterviewCount n 5 20) \<longleftrightarrow> 5 \<le> n \<and> n \<le> 20)"
  using assms
  by (auto simp: POST_checkout_def checkout_session_params_def present_def or_string_def
      or_number_def Let_def validateInterviewCount_def)

text \<open>The count 51 is rejected by the handler; the count 21 is rejected by the check of
  the form only.\<close>

theorem checkout_count_bounds_witness:
  "POST_checkout checkout_example_env Inr (checkout_example_request 51) =
     Inl (500, ''Interview count must be between 1 and 50'') \<and>
   \<not> isValid (validateInterviewCount 21 5 20) \<and>
   (\<exists>params. POST_checkout checkout_example_env Inr (checkout_example_request 21) =
               Inr params \<and> line_items params = [(''price_1'', 21)])"
  using
    checkout_count_bounds [where env = checkout_example_env
      and requestBody = "checkout_example_request 51" and n = 51 and price = "''price_1''"
      and returnUrl = "''https://app.example''" and create = Inr]
    checkout_count_bounds [where env = checkout_example_env
      and requestBody = "checkout_example_request 21" and n = 21 and price = "''price_1''"
      and returnUrl = "''https://app.example''" and create = Inr]
  by (auto simp: checkout_example_env_def checkout_example_request_def present_def)

text \<open>C10: whenever the handler gets as far as creating a session, each of the four profile
  fields of the session's metadata is the field of the request when that is present and
  not empty, and otherwise its fixed default: "Software Engineer" for the role,
  "Technology, Information and Internet" for the industry, "2-7" for the range and
  "100-1000" for the employee range. So none of the four is empty.\<close>

theorem checkout_metadata_defaults:
  assumes "checkout_session_params env requestBody = Inr params"
  shows "md_role (metadata params) =
           (case req_role requestBody of
              None \<Rightarrow> ''Software Engineer''
            | Some v \<Rightarrow> if v = [] then ''Software Engineer'' else v) \<and>
         md_industry (metadata params) =
           (case req_industry requestBody of
              None \<Rightarrow> ''Technology, Information and Internet''
            | Some v \<Rightarrow> if v = [] then ''Technology, Information and Internet'' else v) \<and>
         md_range (metadata params) =
           (case req_range requestBody of
              None \<Rightarrow> ''2-7''
            | Some v \<Rightarrow> if v = [] then ''2-7'' else v) \<and>
         md_employee_range (metadata params) =
           (case req_employee_range requestBody of
              None \<Rightarrow> ''100-1000''
            | Some v \<Rightarrow> if v = [] then ''100-1000'' else v) \<and>
         md_role (metadata params) \<noteq> [] \<and> md_industry (metadata params) \<noteq> [] \<and>
         md_range (metadata params) \<noteq> [] \<and> md_employee_range (metadata params) \<noteq> []"
  using checkout_session_params_metadata [OF assms]
  by (simp add: or_string_def or_string_nonempty split: option.splits)

text \<open>A request with a role, an empty industry, no range and an employee range.\<close>

theorem checkout_metadata_defaults_witness:
  "\<exists>params. checkout_session_params checkout_example_env (checkout_example_request 5) =
     Inr params \<and>
     md_role (metadata params) = ''PM'' \<and>
     md_industry (metadata params) = ''Technology, Information and Internet'' \<and>
     md_range (metadata params) = ''2-7'' \<and>
     md_employee_range (metadata params) = ''10-50''"
proof -
  obtain params where
    p: "checkout_session_params checkout_example_env (checkout_example_request 5) = Inr params"
    by (simp add: checkout_session_params_def checkout_example_env_def
        checkout_example_request_def present_def or_number_def Let_def)
  show ?thesis
    using checkout_metadata_defaults [OF p] p
    by (simp add: checkout_example_request_def)
qed

end
